theory Spec2Isabelle
  imports Complex_Main
begin

section \<open>Numbers\<close>

text \<open>
  The engine computes with Python floats and ints. Ints are modelled as \<open>int\<close>. Finite
  floats are modelled as exact reals: rounding error of the binary representation is not
  part of the model, so every statement below is about the arithmetic the source writes
  down. The non-finite floats (infinity, NaN) are made explicit in the signal extractor,
  the one place where the code divides by a data value.

  \<open>round(x, n)\<close> of Python rounds to \<open>n\<close> decimals, exact ties going to the even
  neighbour.
\<close>

definition round_half_even :: "real \<Rightarrow> int" where
  "round_half_even y =
     (let f = \<lfloor>y\<rfloor>; d = y - of_int f
      in if d < 1 / 2 then f else if d > 1 / 2 then f + 1 else if even f then f else f + 1)"

definition py_round :: "real \<Rightarrow> nat \<Rightarrow> real" where
  "py_round x n = of_int (round_half_even (x * 10 ^ n)) / 10 ^ n"

section \<open>analytics/scoring.py\<close>

subsection \<open>Stage table\<close>

definition STAGE_THRESHOLDS :: "(real \<times> string) list" where
  "STAGE_THRESHOLDS =
     [(78, ''Enterprise Ready''),
      (63, ''High Velocity''),
      (48, ''Qualified''),
      (33, ''Nurture''),
      (0, ''At Risk'')]"

subsection \<open>Category scorers\<close>

text \<open>\<open>_normalize_spend_log(spend, max_spend = 80_000)\<close>.\<close>

definition normalize_spend_log :: "real \<Rightarrow> real \<Rightarrow> real" where
  "normalize_spend_log spend max_spend =
     (if spend \<le> 0 then 0
      else let log_val = log 10 (max spend 1);
               log_max = log 10 max_spend;
               log_min = log 10 500
           in min 100 (max 0 ((log_val - log_min) / (log_max - log_min) * 100)))"

text \<open>\<open>_score_growth(growth_rate)\<close>.\<close>

definition score_growth :: "real \<Rightarrow> real" where
  "score_growth growth_rate =
     (if growth_rate \<ge> 0.50 then 100
      else if growth_rate \<ge> 0.20 then 40 + (growth_rate - 0.20) / 0.30 * 60
      else if growth_rate \<ge> 0 then growth_rate / 0.20 * 40
      else max 0 (20 + growth_rate * 100))"

text \<open>\<open>_score_daily_requests(daily_requests)\<close>.\<close>

definition score_daily_requests :: "int \<Rightarrow> real" where
  "score_daily_requests daily_requests =
     (if daily_requests \<le> 0 then 0
      else let log_val = log 10 (of_int (max daily_requests 1))
           in min 100 (max 0 (log_val / log 10 100000 * 100)))"

text \<open>\<open>_score_prod_ratio(prod_ratio)\<close>.\<close>

definition score_prod_ratio :: "real \<Rightarrow> real" where
  "score_prod_ratio prod_ratio =
     (if prod_ratio \<ge> 0.95 then 100
      else if prod_ratio \<ge> 0.40 then (prod_ratio - 0.40) / 0.55 * 100
      else prod_ratio / 0.40 * 10)"

text \<open>\<open>_score_error_rate(error_rate)\<close>.\<close>

definition score_error_rate :: "real \<Rightarrow> real" where
  "score_error_rate error_rate =
     (if 0.005 \<le> error_rate \<and> error_rate \<le> 0.02 then 100
      else if error_rate < 0.005 then 50 + error_rate / 0.005 * 50
      else if error_rate \<le> 0.05 then max 0 (100 - (error_rate - 0.02) / 0.03 * 80)
      else max 0 (20 - (error_rate - 0.05) / 0.05 * 20))"

text \<open>\<open>_score_model_diversity(n_models)\<close>.\<close>

definition score_model_diversity :: "int \<Rightarrow> real" where
  "score_model_diversity n =
     (if n \<ge> 3 then 100 else if n = 2 then 60 else if n = 1 then 20 else 0)"

text \<open>\<open>_score_domain_users(unique_users)\<close>.\<close>

definition score_domain_users :: "int \<Rightarrow> real" where
  "score_domain_users users =
     (if users \<ge> 10 then 100 else of_int users / 10 * 100)"

text \<open>\<open>_score_enterprise_seats(seats)\<close>.\<close>

definition score_enterprise_seats :: "int \<Rightarrow> real" where
  "score_enterprise_seats seats =
     (if seats \<ge> 100 then 100
      else if seats > 0 then min 100 (of_int seats / 100 * 100)
      else 0)"

text \<open>
  \<open>_score_cross_channel(n_channels, marketplace_to_direct)\<close>. The channel score is
  bounded above only; the source applies no lower bound.
\<close>

definition score_cross_channel :: "int \<Rightarrow> real \<Rightarrow> real" where
  "score_cross_channel n ratio =
     (let channel_score = min 100 (of_int ((n - 1) * 40));
          channel_score = (if ratio > 3 then min 100 (channel_score + 20) else channel_score)
      in channel_score)"

subsection \<open>Risk penalty\<close>

text \<open>\<open>_compute_risk_penalty(days_inactive, growth_rate, n_models)\<close>: the three
  conditional increments of the local \<open>penalty\<close>, then the cap.\<close>

definition penalty_inactive :: "int \<Rightarrow> real" where
  "penalty_inactive days =
     (if days > 14 then 4 else if days > 7 then of_int (days - 7) / 7 * 4 else 0)"

definition penalty_growth :: "real \<Rightarrow> real" where
  "penalty_growth g = (if g < 0 then min 4 (\<bar>g\<bar> * 20) else 0)"

definition penalty_models :: "int \<Rightarrow> real" where
  "penalty_models n = (if n \<le> 1 then 2 else 0)"

definition compute_risk_penalty :: "int \<Rightarrow> real \<Rightarrow> int \<Rightarrow> real" where
  "compute_risk_penalty days g n =
     (let penalty = 0;
          penalty = penalty + penalty_inactive days;
          penalty = penalty + penalty_growth g;
          penalty = penalty + penalty_models n
      in min 10 penalty)"

subsection \<open>Account rows\<close>

text \<open>
  A row of the accounts frame, with the columns the engine reads. Columns read by
  \<open>row[...]\<close> somewhere and by \<open>row.get(..., default)\<close> elsewhere may be absent and
  are options: \<open>growth_rate\<close> (stored), and the derived \<open>computed_growth_rate\<close> and
  \<open>n_active_channels\<close>, which exist only once the signals have been joined in.
\<close>

record row =
  account_id :: string
  latest_direct_spend :: real
  latest_bedrock_spend :: real
  latest_vertex_spend :: real
  latest_seat_spend :: real
  latest_total_spend :: real
  computed_growth_rate :: "real option"
  growth_rate :: "real option"
  daily_requests :: int
  prod_ratio :: real
  error_rate :: real
  n_models :: int
  unique_users :: int
  enterprise_seats :: int
  n_active_channels :: "int option"
  n_channels :: "int option"
  marketplace_to_direct :: real
  days_inactive :: int

text \<open>\<open>row.get("computed_growth_rate", row.get("growth_rate", 0))\<close>.\<close>

definition get_growth :: "'a row_scheme \<Rightarrow> real" where
  "get_growth r =
     (case computed_growth_rate r of
        Some g \<Rightarrow> g
      | None \<Rightarrow> (case growth_rate r of Some g \<Rightarrow> g | None \<Rightarrow> 0))"

text \<open>\<open>row.get("n_active_channels", row.get("n_channels", 1))\<close>.\<close>

definition get_channels :: "'a row_scheme \<Rightarrow> int" where
  "get_channels r =
     (case n_active_channels r of
        Some n \<Rightarrow> n
      | None \<Rightarrow> (case n_channels r of Some n \<Rightarrow> n | None \<Rightarrow> 1))"

subsection \<open>score_account\<close>

text \<open>The locals of \<open>score_account\<close>, in the order the source computes them.\<close>

definition usage_intensity :: "'a row_scheme \<Rightarrow> real" where
  "usage_intensity r =
     (let spend_score = normalize_spend_log (latest_total_spend r) 80000;
          growth_score = score_growth (get_growth r);
          request_score = score_daily_requests (daily_requests r)
      in spend_score * 0.4 + growth_score * 0.4 + request_score * 0.2)"

definition production_maturity :: "'a row_scheme \<Rightarrow> real" where
  "production_maturity r =
     (let prod_score = score_prod_ratio (prod_ratio r);
          error_score = score_error_rate (error_rate r);
          model_score = score_model_diversity (n_models r)
      in prod_score * 0.4 + error_score * 0.3 + model_score * 0.3)"

definition team_adoption :: "'a row_scheme \<Rightarrow> real" where
  "team_adoption r =
     (let users_score = score_domain_users (unique_users r);
          seats_score = score_enterprise_seats (enterprise_seats r)
      in users_score * 0.6 + seats_score * 0.4)"

definition cross_channel :: "'a row_scheme \<Rightarrow> real" where
  "cross_channel r = score_cross_channel (get_channels r) (marketplace_to_direct r)"

definition risk_of :: "'a row_scheme \<Rightarrow> real" where
  "risk_of r = compute_risk_penalty (days_inactive r) (get_growth r) (n_models r)"

definition raw_score :: "'a row_scheme \<Rightarrow> real" where
  "raw_score r =
     usage_intensity r * 0.30
     + production_maturity r * 0.25
     + team_adoption r * 0.20
     + cross_channel r * 0.15"

definition total_score :: "'a row_scheme \<Rightarrow> real" where
  "total_score r = max 0 (min 100 (raw_score r - risk_of r))"

text \<open>
  The stage loop: \<open>stage\<close> starts as its default and the first threshold the score
  reaches sets it and breaks.
\<close>

fun stage_loop :: "real \<Rightarrow> (real \<times> string) list \<Rightarrow> string \<Rightarrow> string" where
  "stage_loop t [] stage = stage"
| "stage_loop t ((threshold, stage_name) # rest) stage =
     (if t \<ge> threshold then stage_name else stage_loop t rest stage)"

definition assign_stage :: "real \<Rightarrow> string" where
  "assign_stage t = stage_loop t STAGE_THRESHOLDS ''At Risk''"

record score_result =
  conversion_score :: real
  stage :: string
  usage_intensity_score :: real
  production_maturity_score :: real
  team_adoption_score :: real
  cross_channel_score :: real
  risk_penalty :: real

definition score_account :: "'a row_scheme \<Rightarrow> score_result" where
  "score_account r =
     \<lparr> conversion_score = py_round (total_score r) 1,
       stage = assign_stage (total_score r),
       usage_intensity_score = py_round (usage_intensity r) 1,
       production_maturity_score = py_round (production_maturity r) 1,
       team_adoption_score = py_round (team_adoption r) 1,
       cross_channel_score = py_round (cross_channel r) 1,
       risk_penalty = py_round (risk_of r) 1 \<rparr>"

subsection \<open>get_recommended_action\<close>

text \<open>
  The row handed to the action engine is a row of the scored frame: the account columns
  joined with the score columns, so \<open>row["stage"]\<close> is \<open>stage (scores r)\<close>.
\<close>

record scored_row = row +
  scores :: score_result

definition get_recommended_action :: "scored_row \<Rightarrow> string" where
  "get_recommended_action r =
     (if stage (scores r) = ''Enterprise Ready'' then
        ''Route to AE for enterprise contract discussion''
      else if stage (scores r) = ''High Velocity'' then
        (if enterprise_seats r = 0 then
           ''Introduce Claude for Enterprise; schedule product demo''
         else ''Monitor for trigger event; prepare custom pricing proposal'')
      else if stage (scores r) = ''Qualified'' then
        (if n_models r \<le> 1 then
           ''Share multi-model use case guide; suggest Sonnet for cost optimization''
         else if prod_ratio r < 0.6 then
           ''Offer production deployment support; share best practices''
         else ''Assign SDR for discovery call; share enterprise case studies'')
      else if stage (scores r) = ''Nurture'' then
        (if get_growth r < 0 then
           ''Trigger re-engagement campaign; offer office hours''
         else ''Add to nurture sequence; share relevant content'')
      else
        (if days_inactive r > 14 then
           ''CSM outreach: check-in call to understand blockers''
         else ''CSM intervention: identify churn risk factors''))"

section \<open>analytics/signals.py\<close>

subsection \<open>Float values that need not be finite\<close>

text \<open>
  The growth derivation divides one bucket total by another. NumPy does not raise on a
  zero divisor: \<open>x / 0\<close> is an infinity for \<open>x \<noteq> 0\<close> and NaN for \<open>x = 0\<close>. The
  values of that computation are therefore finite reals, the two infinities, or NaN, with
  the IEEE rules for the operations the source applies to them. Signed zeros are not
  modelled: a zero divisor is taken as \<open>+0.0\<close>, which is what a sum of spends gives.
\<close>

datatype fval = Fin real | PInf | NInf | NaN

fun fadd :: "fval \<Rightarrow> fval \<Rightarrow> fval" where
  "fadd (Fin a) (Fin b) = Fin (a + b)"
| "fadd NaN _ = NaN"
| "fadd _ NaN = NaN"
| "fadd PInf NInf = NaN"
| "fadd NInf PInf = NaN"
| "fadd PInf _ = PInf"
| "fadd _ PInf = PInf"
| "fadd NInf _ = NInf"
| "fadd _ NInf = NInf"

text \<open>Division of two finite floats, as NumPy does it.\<close>

definition fdiv :: "real \<Rightarrow> real \<Rightarrow> fval" where
  "fdiv a b =
     (if b \<noteq> 0 then Fin (a / b)
      else if a > 0 then PInf else if a < 0 then NInf else NaN)"

text \<open>Multiplication and division by a finite positive constant.\<close>

fun fscale :: "fval \<Rightarrow> real \<Rightarrow> fval" where
  "fscale (Fin a) c = Fin (a * c)"
| "fscale v c = v"

fun fdiv_count :: "fval \<Rightarrow> nat \<Rightarrow> fval" where
  "fdiv_count (Fin a) n = Fin (a / real n)"
| "fdiv_count v n = v"

text \<open>\<open>x ** 12\<close>: an even power of either infinity is \<open>+inf\<close>.\<close>

fun fpow12 :: "fval \<Rightarrow> fval" where
  "fpow12 (Fin a) = Fin (a ^ 12)"
| "fpow12 PInf = PInf"
| "fpow12 NInf = PInf"
| "fpow12 NaN = NaN"

fun fround :: "fval \<Rightarrow> nat \<Rightarrow> fval" where
  "fround (Fin a) n = Fin (py_round a n)"
| "fround v n = v"

subsection \<open>The pandas operations of compute_growth_rate\<close>

record usage_row =
  usage_account_id :: string
  month_idx :: int
  spend :: real

text \<open>\<open>groupby("month_idx")["spend"].sum().sort_index()\<close>: one total per distinct month,
  in ascending month order.\<close>

definition groupby_sum :: "usage_row list \<Rightarrow> real list" where
  "groupby_sum account_data =
     map (\<lambda>m. sum_list (map spend (filter (\<lambda>u. month_idx u = m) account_data)))
       (sort (remdups (map month_idx account_data)))"

text \<open>\<open>tail(n)\<close>: the last \<open>n\<close> entries, all of them when there are fewer.\<close>

definition tail_n :: "nat \<Rightarrow> 'a list \<Rightarrow> 'a list" where
  "tail_n n xs = drop (length xs - n) xs"

text \<open>\<open>pct_change()\<close>: \<open>cur / prev - 1\<close> for each entry but the first, which has no
  predecessor and is NaN.\<close>

fun pct_pairs :: "real \<Rightarrow> real list \<Rightarrow> fval list" where
  "pct_pairs prev [] = []"
| "pct_pairs prev (cur # rest) = fadd (fdiv cur prev) (Fin (- 1)) # pct_pairs cur rest"

definition pct_change :: "real list \<Rightarrow> fval list" where
  "pct_change xs = (case xs of [] \<Rightarrow> [] | x # rest \<Rightarrow> NaN # pct_pairs x rest)"

text \<open>\<open>dropna()\<close> removes NaN and nothing else: an infinity stays.\<close>

definition dropna :: "fval list \<Rightarrow> fval list" where
  "dropna vs = filter (\<lambda>v. v \<noteq> NaN) vs"

definition mean :: "fval list \<Rightarrow> fval" where
  "mean vs = fdiv_count (foldl fadd (Fin 0) vs) (length vs)"

subsection \<open>compute_growth_rate\<close>

definition compute_growth_rate :: "usage_row list \<Rightarrow> string \<Rightarrow> fval" where
  "compute_growth_rate monthly_usage_df aid =
     (let account_data = filter (\<lambda>u. usage_account_id u = aid) monthly_usage_df
      in if account_data = [] then Fin 0
         else let monthly_totals = groupby_sum account_data
              in if length monthly_totals < 2 then Fin 0
                 else let recent = tail_n 4 monthly_totals;
                          growth_rates = dropna (pct_change recent)
                      in if growth_rates = [] then Fin 0
                         else let avg_mom = mean growth_rates;
                                  annualized = fadd (fpow12 (fadd (Fin 1) avg_mom)) (Fin (- 1))
                              in annualized)"

subsection \<open>compute_cross_channel_spend and compute_all_signals\<close>

record channel_spend =
  ch_direct :: real
  ch_bedrock :: real
  ch_vertex :: real
  ch_seats :: real
  ch_total :: real

definition compute_cross_channel_spend :: "row list \<Rightarrow> string \<Rightarrow> channel_spend" where
  "compute_cross_channel_spend accounts_df aid =
     (case filter (\<lambda>r. account_id r = aid) accounts_df of
        [] \<Rightarrow> \<lparr> ch_direct = 0, ch_bedrock = 0, ch_vertex = 0, ch_seats = 0, ch_total = 0 \<rparr>
      | r # _ \<Rightarrow>
          \<lparr> ch_direct = latest_direct_spend r,
            ch_bedrock = latest_bedrock_spend r,
            ch_vertex = latest_vertex_spend r,
            ch_seats = latest_seat_spend r,
            ch_total = latest_total_spend r \<rparr>)"

text \<open>The sum of the four booleans \<open>channel_spend[...] > 0\<close>.\<close>

definition count_active :: "channel_spend \<Rightarrow> int" where
  "count_active cs =
     of_bool (ch_direct cs > 0) + of_bool (ch_bedrock cs > 0)
     + of_bool (ch_vertex cs > 0) + of_bool (ch_seats cs > 0)"

datatype py_error = KeyError

text \<open>The dictionary appended to \<open>signals\<close> for one account.\<close>

record signals =
  sig_account_id :: string
  sig_computed_growth_rate :: fval
  sig_n_active_channels :: int
  channel_direct :: real
  channel_bedrock :: real
  channel_vertex :: real
  channel_seats :: real

text \<open>The body of the loop of \<open>compute_all_signals\<close>; \<open>row["growth_rate"]\<close> raises
  when the column is absent.\<close>

definition signals_for :: "row list \<Rightarrow> usage_row list \<Rightarrow> row \<Rightarrow> py_error + signals" where
  "signals_for accounts_df monthly_usage_df r =
     (let aid = account_id r;
          growth = compute_growth_rate monthly_usage_df aid;
          channel_spend = compute_cross_channel_spend accounts_df aid;
          n_active = count_active channel_spend
      in case growth_rate r of
           None \<Rightarrow> Inl KeyError
         | Some stored_growth \<Rightarrow>
             let blended_growth = fadd (fscale (Fin stored_growth) 0.7) (fscale growth 0.3)
             in Inr \<lparr> sig_account_id = aid,
                      sig_computed_growth_rate = fround blended_growth 4,
                      sig_n_active_channels = n_active,
                      channel_direct = ch_direct channel_spend,
                      channel_bedrock = ch_bedrock channel_spend,
                      channel_vertex = ch_vertex channel_spend,
                      channel_seats = ch_seats channel_spend \<rparr>)"

fun signals_loop :: "row list \<Rightarrow> usage_row list \<Rightarrow> row list \<Rightarrow> py_error + signals list" where
  "signals_loop accounts_df monthly_usage_df [] = Inr []"
| "signals_loop accounts_df monthly_usage_df (r # rest) =
     (case signals_for accounts_df monthly_usage_df r of
        Inl e \<Rightarrow> Inl e
      | Inr s \<Rightarrow>
          (case signals_loop accounts_df monthly_usage_df rest of
             Inl e \<Rightarrow> Inl e
           | Inr ss \<Rightarrow> Inr (s # ss)))"

text \<open>\<open>accounts_df.merge(signals_df, on="account_id", how="left")\<close>: every account row
  with each signal row of its id, or with none.\<close>

definition merge_left :: "row list \<Rightarrow> signals list \<Rightarrow> (row \<times> signals option) list" where
  "merge_left accounts_df signals_df =
     concat (map (\<lambda>r. case filter (\<lambda>s. sig_account_id s = account_id r) signals_df of
                          [] \<Rightarrow> [(r, None)]
                        | ms \<Rightarrow> map (\<lambda>s. (r, Some s)) ms) accounts_df)"

definition compute_all_signals ::
  "row list \<Rightarrow> usage_row list \<Rightarrow> py_error + (row \<times> signals option) list" where
  "compute_all_signals accounts_df monthly_usage_df =
     (case signals_loop accounts_df monthly_usage_df accounts_df of
        Inl e \<Rightarrow> Inl e
      | Inr signals_df \<Rightarrow> Inr (merge_left accounts_df signals_df))"

section \<open>data/generator.py\<close>

text \<open>The marketplace-to-direct ratio of \<open>generate_accounts\<close>, as a function of the two
  spends it is computed from.\<close>

definition marketplace_to_direct_of :: "real \<Rightarrow> real \<Rightarrow> real" where
  "marketplace_to_direct_of marketplace_spend direct_spend =
     (if direct_spend > 0 then py_round (marketplace_spend / direct_spend) 2 else 99)"

section \<open>The derived growth rate as the specification words it\<close>

text \<open>
  The specification's reading of the growth derivation, written without the operations
  of the model of the code. The history rows of the account are grouped by time bucket,
  the spend of each bucket is summed, and the buckets are taken in chronological order.
  Fewer than two buckets give 0; otherwise the percentage change
  \<open>(cur - prev) / prev\<close> of each consecutive pair of the last four buckets is averaged
  and annualised. It is compared with \<open>compute_growth_rate\<close> below.
\<close>

definition spec_bucket_totals :: "usage_row list \<Rightarrow> real list" where
  "spec_bucket_totals history =
     map (\<lambda>m. \<Sum>u\<leftarrow>history. if month_idx u = m then spend u else 0)
       (sorted_list_of_set (month_idx ` set history))"

definition spec_last :: "nat \<Rightarrow> 'a list \<Rightarrow> 'a list" where
  "spec_last n xs = rev (take n (rev xs))"

definition spec_pct_changes :: "real list \<Rightarrow> real list" where
  "spec_pct_changes xs = map (\<lambda>(prev, cur). (cur - prev) / prev) (zip xs (tl xs))"

definition spec_derived_growth :: "real list \<Rightarrow> real" where
  "spec_derived_growth buckets =
     (if length buckets < 2 then 0
      else let changes = spec_pct_changes (spec_last 4 buckets);
               avg_monthly_rate = sum_list changes / real (length changes)
           in (1 + avg_monthly_rate) ^ 12 - 1)"

definition spec_derive_growth_rate :: "usage_row list \<Rightarrow> string \<Rightarrow> real" where
  "spec_derive_growth_rate history aid =
     spec_derived_growth (spec_bucket_totals [u \<leftarrow> history. usage_account_id u = aid])"

section \<open>Example inputs\<close>

text \<open>An account that saturates every category: spend and requests at their ceilings,
  growth 50%, four channels, no risk factor.\<close>

definition saturated_row :: row where
  "saturated_row =
     \<lparr> account_id = ''ACC-1001'', latest_direct_spend = 30000, latest_bedrock_spend = 30000,
       latest_vertex_spend = 17000, latest_seat_spend = 3000, latest_total_spend = 80000,
       computed_growth_rate = Some 0.5, growth_rate = Some 0.5,
       daily_requests = 100000, prod_ratio = 0.95, error_rate = 0.01, n_models = 3,
       unique_users = 10, enterprise_seats = 100, n_active_channels = Some 4,
       n_channels = Some 4, marketplace_to_direct = 1.57, days_inactive = 0 \<rparr>"

text \<open>An account that scores nothing in any category and draws every risk increment.\<close>

definition floor_row :: row where
  "floor_row =
     \<lparr> account_id = ''ACC-1002'', latest_direct_spend = 100, latest_bedrock_spend = 0,
       latest_vertex_spend = 0, latest_seat_spend = 0, latest_total_spend = 100,
       computed_growth_rate = Some (- 0.2), growth_rate = Some (- 0.2),
       daily_requests = 0, prod_ratio = 0, error_rate = 0.1, n_models = 0,
       unique_users = 0, enterprise_seats = 0, n_active_channels = Some 1,
       n_channels = Some 1, marketplace_to_direct = 0, days_inactive = 15 \<rparr>"

text \<open>An account whose composite is 77.96.\<close>

definition boundary_row :: row where
  "boundary_row =
     \<lparr> account_id = ''ACC-1003'', latest_direct_spend = 40000, latest_bedrock_spend = 30000,
       latest_vertex_spend = 10000, latest_seat_spend = 0, latest_total_spend = 80000,
       computed_growth_rate = Some 0.5, growth_rate = Some 0.5,
       daily_requests = 100000, prod_ratio = 0.7828, error_rate = 0.01, n_models = 3,
       unique_users = 5, enterprise_seats = 100, n_active_channels = Some 3,
       n_channels = Some 3, marketplace_to_direct = 1, days_inactive = 0 \<rparr>"

text \<open>An account with no spend on any channel and no usage history.\<close>

definition idle_account :: row where
  "idle_account =
     \<lparr> account_id = ''ACC-1004'', latest_direct_spend = 0, latest_bedrock_spend = 0,
       latest_vertex_spend = 0, latest_seat_spend = 0, latest_total_spend = 0,
       computed_growth_rate = None, growth_rate = Some 0,
       daily_requests = 0, prod_ratio = 0, error_rate = 0, n_models = 1,
       unique_users = 1, enterprise_seats = 0, n_active_channels = None,
       n_channels = Some 1, marketplace_to_direct = 99, days_inactive = 3 \<rparr>"

text \<open>A usage history of six buckets whose rows are not in month order, the newest
  bucket made of two channel rows and the two oldest unlike the last four; and its
  account, with a stored growth of 10%.\<close>

definition steady_usage :: "usage_row list" where
  "steady_usage =
     [\<lparr> usage_account_id = ''ACC-1005'', month_idx = 10, spend = 121 \<rparr>,
      \<lparr> usage_account_id = ''ACC-1005'', month_idx = 8, spend = 100 \<rparr>,
      \<lparr> usage_account_id = ''ACC-1005'', month_idx = 11, spend = 100 \<rparr>,
      \<lparr> usage_account_id = ''ACC-1005'', month_idx = 2, spend = 50 \<rparr>,
      \<lparr> usage_account_id = ''ACC-1005'', month_idx = 9, spend = 110 \<rparr>,
      \<lparr> usage_account_id = ''ACC-1005'', month_idx = 11, spend = 21 \<rparr>,
      \<lparr> usage_account_id = ''ACC-1005'', month_idx = 5, spend = 400 \<rparr>]"

definition steady_account :: row where
  "steady_account =
     \<lparr> account_id = ''ACC-1005'', latest_direct_spend = 100, latest_bedrock_spend = 21,
       latest_vertex_spend = 0, latest_seat_spend = 0, latest_total_spend = 121,
       computed_growth_rate = None, growth_rate = Some 0.1,
       daily_requests = 300, prod_ratio = 0.5, error_rate = 0.01, n_models = 2,
       unique_users = 3, enterprise_seats = 0, n_active_channels = None,
       n_channels = Some 2, marketplace_to_direct = 0.21, days_inactive = 1 \<rparr>"

text \<open>A usage history whose first bucket is zero and whose second is not, and its
  account.\<close>

definition zero_start_usage :: "usage_row list" where
  "zero_start_usage =
     [\<lparr> usage_account_id = ''ACC-1007'', month_idx = 0, spend = 0 \<rparr>,
      \<lparr> usage_account_id = ''ACC-1007'', month_idx = 1, spend = 100 \<rparr>]"

definition restart_account :: row where
  "restart_account =
     \<lparr> account_id = ''ACC-1007'', latest_direct_spend = 100, latest_bedrock_spend = 0,
       latest_vertex_spend = 0, latest_seat_spend = 0, latest_total_spend = 100,
       computed_growth_rate = None, growth_rate = Some 0,
       daily_requests = 100, prod_ratio = 0.5, error_rate = 0.01, n_models = 1,
       unique_users = 1, enterprise_seats = 0, n_active_channels = None,
       n_channels = Some 1, marketplace_to_direct = 0, days_inactive = 1 \<rparr>"

text \<open>A scored row in stage Qualified for which both Qualified conditions hold.\<close>

definition qualified_row :: scored_row where
  "qualified_row =
     \<lparr> account_id = ''ACC-1006'', latest_direct_spend = 5000, latest_bedrock_spend = 0,
       latest_vertex_spend = 0, latest_seat_spend = 0, latest_total_spend = 5000,
       computed_growth_rate = Some 0.1, growth_rate = Some 0.1,
       daily_requests = 5000, prod_ratio = 0.5, error_rate = 0.01, n_models = 1,
       unique_users = 8, enterprise_seats = 10, n_active_channels = Some 1,
       n_channels = Some 1, marketplace_to_direct = 0, days_inactive = 1,
       scores = \<lparr> conversion_score = 50, stage = ''Qualified'', usage_intensity_score = 50,
                  production_maturity_score = 50, team_adoption_score = 50,
                  cross_channel_score = 0, risk_penalty = 2 \<rparr> \<rparr>"

section \<open>Facts about the scorers\<close>

lemma score_growth_nonneg: "0 \<le> x \<Longrightarrow> score_growth x = min 100 (200 * x)"
  by (auto simp: score_growth_def min_def field_simps)

lemma spend_ceiling: "normalize_spend_log 80000 80000 = 100"
proof -
  define d :: real where "d = log 10 80000 - log 10 500"
  have "log 10 500 < log 10 (80000::real)"
    by (subst log_less_cancel_iff) simp_all
  then have d0: "d \<noteq> 0"
    unfolding d_def by linarith
  have "normalize_spend_log 80000 80000 = min 100 (max 0 (d / d * 100))"
    unfolding normalize_spend_log_def Let_def d_def by simp
  also have "\<dots> = 100"
    using d0 by simp
  finally show ?thesis .
qed

lemma requests_ceiling: "score_daily_requests 100000 = 100"
proof -
  define d :: real where "d = log 10 100000"
  have "0 < log 10 (100000::real)"
    by (subst zero_less_log_cancel_iff) simp_all
  then have d0: "d \<noteq> 0"
    unfolding d_def by linarith
  have "score_daily_requests 100000 = min 100 (max 0 (d / d * 100))"
    unfolding score_daily_requests_def Let_def d_def by simp
  also have "\<dots> = 100"
    using d0 by simp
  finally show ?thesis .
qed

lemma spend_floor: "normalize_spend_log 100 80000 = 0"
proof -
  have n: "log 10 100 - log 10 (500::real) < 0"
    by (simp del: log_less_cancel_iff add: log_less_cancel_iff[of 10 100 500])
  have "log 10 500 < log 10 (80000::real)"
    by (subst log_less_cancel_iff) simp_all
  then have d: "0 < log 10 80000 - log 10 (500::real)"
    by linarith
  have "(log 10 100 - log 10 (500::real)) / (log 10 80000 - log 10 500) * 100 \<le> 0"
    using n d by (simp add: divide_le_0_iff mult_le_0_iff)
  then have "max 0 ((log 10 100 - log 10 (500::real)) / (log 10 80000 - log 10 500) * 100) = 0"
    by (rule max_absorb1)
  then show ?thesis
    unfolding normalize_spend_log_def Let_def by simp
qed

lemmas risk_defs =
  risk_of_def compute_risk_penalty_def penalty_inactive_def penalty_growth_def
  penalty_models_def

lemma total_score_range: "0 \<le> total_score r \<and> total_score r \<le> 100"
  by (simp add: total_score_def)

subsection \<open>The saturated account\<close>

lemma sat_usage: "usage_intensity saturated_row = 100"
  by (simp add: usage_intensity_def saturated_row_def get_growth_def spend_ceiling
      requests_ceiling score_growth_def Let_def)

lemma sat_prod: "production_maturity saturated_row = 100"
  by (simp add: production_maturity_def saturated_row_def score_prod_ratio_def
      score_error_rate_def score_model_diversity_def Let_def)

lemma sat_team: "team_adoption saturated_row = 100"
  by (simp add: team_adoption_def saturated_row_def score_domain_users_def
      score_enterprise_seats_def Let_def)

lemma sat_cross: "cross_channel saturated_row = 100"
  by (simp add: cross_channel_def saturated_row_def get_channels_def
      score_cross_channel_def Let_def)

lemma sat_risk: "risk_of saturated_row = 0"
  by (simp add: risk_defs saturated_row_def get_growth_def Let_def)

subsection \<open>The account at the floor\<close>

lemma fl_usage: "usage_intensity floor_row = 0"
  by (simp add: usage_intensity_def floor_row_def get_growth_def spend_floor
      score_daily_requests_def score_growth_def Let_def)

lemma fl_prod: "production_maturity floor_row = 0"
  by (simp add: production_maturity_def floor_row_def score_prod_ratio_def
      score_error_rate_def score_model_diversity_def Let_def)

lemma fl_team: "team_adoption floor_row = 0"
  by (simp add: team_adoption_def floor_row_def score_domain_users_def
      score_enterprise_seats_def Let_def)

lemma fl_cross: "cross_channel floor_row = 0"
  by (simp add: cross_channel_def floor_row_def get_channels_def
      score_cross_channel_def Let_def)

lemma fl_risk: "risk_of floor_row = 10"
  by (simp add: risk_defs floor_row_def get_growth_def Let_def)

subsection \<open>The account just under a threshold\<close>

lemma b_usage: "usage_intensity boundary_row = 100"
  by (simp add: usage_intensity_def boundary_row_def get_growth_def spend_ceiling
      requests_ceiling score_growth_def Let_def)

lemma b_prod: "production_maturity boundary_row = 87.84"
  by (simp add: production_maturity_def boundary_row_def score_prod_ratio_def
      score_error_rate_def score_model_diversity_def Let_def)

lemma b_team: "team_adoption boundary_row = 70"
  by (simp add: team_adoption_def boundary_row_def score_domain_users_def
      score_enterprise_seats_def Let_def)

lemma b_cross: "cross_channel boundary_row = 80"
  by (simp add: cross_channel_def boundary_row_def get_channels_def
      score_cross_channel_def Let_def)

lemma b_risk: "risk_of boundary_row = 0"
  by (simp add: risk_defs boundary_row_def get_growth_def Let_def)

lemma b_total: "total_score boundary_row = 77.96"
  by (simp add: total_score_def raw_score_def b_usage b_prod b_team b_cross b_risk)

lemma round_7796: "py_round 77.96 1 = 78"
  by (simp add: py_round_def round_half_even_def Let_def)

section \<open>The composite score\<close>

text \<open>
  C1, as the code has it. The composite \<open>total_score\<close> of every account row is
  \<open>clamp(0.30 * UsageIntensity + 0.25 * ProductionMaturity + 0.20 * TeamAdoption
  + 0.15 * CrossChannel - risk_penalty, 0, 100)\<close> with the three weighted categories
  built from their sub-scores as stated, it lies in [0, 100], and the returned
  \<open>conversion_score\<close> is that composite rounded to one decimal. The four weights sum to
  0.90, so with all four categories at 100 and no risk penalty the composite is 90; with
  all four at 0 and the maximal penalty of 10 it is 0, not negative.
\<close>

theorem composite_score_formula:
  fixes r :: row
  shows
    "total_score r =
       max 0 (min 100 (0.30 * usage_intensity r + 0.25 * production_maturity r
                       + 0.20 * team_adoption r + 0.15 * cross_channel r - risk_of r))
     \<and> usage_intensity r =
         normalize_spend_log (latest_total_spend r) 80000 * 0.4
         + score_growth (get_growth r) * 0.4
         + score_daily_requests (daily_requests r) * 0.2
     \<and> production_maturity r =
         score_prod_ratio (prod_ratio r) * 0.4
         + score_error_rate (error_rate r) * 0.3
         + score_model_diversity (n_models r) * 0.3
     \<and> team_adoption r =
         score_domain_users (unique_users r) * 0.6
         + score_enterprise_seats (enterprise_seats r) * 0.4
     \<and> conversion_score (score_account r) = py_round (total_score r) 1
     \<and> 0 \<le> total_score r \<and> total_score r \<le> 100
     \<and> (usage_intensity r = 100 \<and> production_maturity r = 100 \<and> team_adoption r = 100
          \<and> cross_channel r = 100 \<and> risk_of r = 0 \<longrightarrow> total_score r = 90)
     \<and> (usage_intensity r = 0 \<and> production_maturity r = 0 \<and> team_adoption r = 0
          \<and> cross_channel r = 0 \<and> risk_of r = 10 \<longrightarrow> total_score r = 0)"
proof -
  have t: "total_score r =
       max 0 (min 100 (0.30 * usage_intensity r + 0.25 * production_maturity r
                       + 0.20 * team_adoption r + 0.15 * cross_channel r - risk_of r))"
    by (simp add: total_score_def raw_score_def mult.commute)
  have u: "usage_intensity r =
         normalize_spend_log (latest_total_spend r) 80000 * 0.4
         + score_growth (get_growth r) * 0.4
         + score_daily_requests (daily_requests r) * 0.2"
    by (simp add: usage_intensity_def Let_def)
  have p: "production_maturity r =
         score_prod_ratio (prod_ratio r) * 0.4
         + score_error_rate (error_rate r) * 0.3
         + score_model_diversity (n_models r) * 0.3"
    by (simp add: production_maturity_def Let_def)
  have a: "team_adoption r =
         score_domain_users (unique_users r) * 0.6
         + score_enterprise_seats (enterprise_seats r) * 0.4"
    by (simp add: team_adoption_def Let_def)
  have c: "conversion_score (score_account r) = py_round (total_score r) 1"
    by (simp add: score_account_def)
  have hi: "usage_intensity r = 100 \<and> production_maturity r = 100 \<and> team_adoption r = 100
          \<and> cross_channel r = 100 \<and> risk_of r = 0 \<longrightarrow> total_score r = 90"
    by (simp add: total_score_def raw_score_def)
  have lo: "usage_intensity r = 0 \<and> production_maturity r = 0 \<and> team_adoption r = 0
          \<and> cross_channel r = 0 \<and> risk_of r = 10 \<longrightarrow> total_score r = 0"
    by (simp add: total_score_def raw_score_def)
  from t u p a c total_score_range[of r] hi lo show ?thesis
    by blast
qed

theorem composite_score_formula_witness:
  "usage_intensity saturated_row = 100 \<and> production_maturity saturated_row = 100
   \<and> team_adoption saturated_row = 100 \<and> cross_channel saturated_row = 100
   \<and> risk_of saturated_row = 0 \<and> total_score saturated_row = 90
   \<and> usage_intensity floor_row = 0 \<and> production_maturity floor_row = 0
   \<and> team_adoption floor_row = 0 \<and> cross_channel floor_row = 0
   \<and> risk_of floor_row = 10 \<and> total_score floor_row = 0"
proof -
  have hi: "total_score saturated_row = 90"
    using composite_score_formula[of saturated_row] sat_usage sat_prod sat_team sat_cross sat_risk
    by blast
  have lo: "total_score floor_row = 0"
    using composite_score_formula[of floor_row] fl_usage fl_prod fl_team fl_cross fl_risk
    by blast
  from hi lo sat_usage sat_prod sat_team sat_cross sat_risk
    fl_usage fl_prod fl_team fl_cross fl_risk
  show ?thesis by blast
qed

text \<open>
  C1 as stated fails at the saturated account: every category is at 100 and the risk
  penalty is 0, and the composite is not 100.
\<close>

theorem composite_saturated_counterexample:
  "usage_intensity saturated_row = 100 \<and> production_maturity saturated_row = 100
   \<and> team_adoption saturated_row = 100 \<and> cross_channel saturated_row = 100
   \<and> risk_of saturated_row = 0 \<and> total_score saturated_row \<noteq> 100"
  by (simp add: total_score_def raw_score_def sat_usage sat_prod sat_team sat_cross sat_risk)

section \<open>The cross-channel scorer\<close>

text \<open>
  C2 at its failing input. An account none of whose four channel spends is positive gets
  an active-channel count of 0 from the signal extractor, and for 0 channels the
  cross-channel scorer returns -40, or -20 with the bonus for a ratio above 3; the
  cross-channel category of the enriched row is then negative.
\<close>

theorem cross_channel_zero_channels:
  "map_sum id sig_n_active_channels (signals_for [idle_account] [] idle_account) = Inr 0
   \<and> score_cross_channel 0 0 = - 40
   \<and> score_cross_channel 0 99 = - 20
   \<and> cross_channel (idle_account\<lparr>n_active_channels := Some 0\<rparr>) = - 20"
proof -
  have n: "map_sum id sig_n_active_channels (signals_for [idle_account] [] idle_account) = Inr 0"
    by (simp add: signals_for_def idle_account_def compute_cross_channel_spend_def
        count_active_def Let_def)
  have s: "score_cross_channel 0 0 = - 40 \<and> score_cross_channel 0 99 = - 20"
    by (simp add: score_cross_channel_def Let_def)
  have c: "cross_channel (idle_account\<lparr>n_active_channels := Some 0\<rparr>) = - 20"
    by (simp add: cross_channel_def get_channels_def idle_account_def
        score_cross_channel_def Let_def)
  from n s c show ?thesis by simp
qed

section \<open>Stage assignment\<close>

text \<open>
  C3. The stage of every account is a function of its composite alone, read off the
  descending thresholds with the first match winning: at least 78 is Enterprise Ready, at
  least 63 High Velocity, at least 48 Qualified, at least 33 Nurture, anything else At
  Risk; so every composite has exactly one stage, and it is one of the five of the table.
  A composite of 78.0 is Enterprise Ready and one of 77.9 is High Velocity.
\<close>

theorem stage_assignment:
  fixes r :: row
  shows
    "stage (score_account r) = assign_stage (total_score r)
     \<and> assign_stage t =
         (if t \<ge> 78 then ''Enterprise Ready''
          else if t \<ge> 63 then ''High Velocity''
          else if t \<ge> 48 then ''Qualified''
          else if t \<ge> 33 then ''Nurture''
          else ''At Risk'')
     \<and> assign_stage t \<in> set (map snd STAGE_THRESHOLDS)
     \<and> assign_stage 78 = ''Enterprise Ready''
     \<and> assign_stage 77.9 = ''High Velocity''"
  by (simp add: score_account_def assign_stage_def STAGE_THRESHOLDS_def)

section \<open>The growth scorer\<close>

text \<open>
  Away from 0 the growth scorer behaves: it is continuous and monotonic non-decreasing over
  the growth rates from 0 upwards, and over the negative ones, and its segments agree at
  0.20 and at 0.50.
\<close>

lemma growth_score_pieces:
  "continuous_on {0..} score_growth
   \<and> continuous_on {..<0} score_growth
   \<and> (0 \<le> x \<and> x \<le> y \<longrightarrow> score_growth x \<le> score_growth y)
   \<and> (u \<le> v \<and> v < 0 \<longrightarrow> score_growth u \<le> score_growth v)
   \<and> score_growth 0.50 = 100
   \<and> score_growth 0.20 = 40"
proof -
  have "continuous_on {0..} (\<lambda>x::real. min 100 (200 * x))"
    by (intro continuous_intros)
  moreover have "continuous_on {0..} score_growth
      = continuous_on {0..} (\<lambda>x::real. min 100 (200 * x))"
    by (rule continuous_on_cong) (simp_all add: score_growth_nonneg)
  ultimately have c: "continuous_on {0..} score_growth"
    by simp
  have "continuous_on {..<0} (\<lambda>x::real. max 0 (20 + x * 100))"
    by (intro continuous_intros)
  moreover have "continuous_on {..<0} score_growth
      = continuous_on {..<0} (\<lambda>x::real. max 0 (20 + x * 100))"
    by (rule continuous_on_cong) (simp_all add: score_growth_def)
  ultimately have c': "continuous_on {..<0} score_growth"
    by simp
  have m: "0 \<le> x \<and> x \<le> y \<longrightarrow> score_growth x \<le> score_growth y"
  proof
    assume xy: "0 \<le> x \<and> x \<le> y"
    then have "score_growth x = min 100 (200 * x)" and "score_growth y = min 100 (200 * y)"
      by (simp_all add: score_growth_nonneg)
    with xy show "score_growth x \<le> score_growth y"
      by (simp add: min_def)
  qed
  have n: "u \<le> v \<and> v < 0 \<longrightarrow> score_growth u \<le> score_growth v"
    by (auto simp: score_growth_def)
  have b: "score_growth 0.50 = 100 \<and> score_growth 0.20 = 40"
    by (simp add: score_growth_def)
  from c c' m n b show ?thesis by blast
qed

lemma growth_score_pieces_example:
  "(0::real) \<le> 0.1 \<and> (0.1::real) \<le> 0.3 \<and> score_growth 0.1 \<le> score_growth 0.3
   \<and> (- 0.3::real) \<le> - 0.1 \<and> (- 0.1::real) < 0 \<and> score_growth (- 0.3) \<le> score_growth (- 0.1)"
  using growth_score_pieces[of "0.1" "0.3" "- 0.3" "- 0.1"] by simp

text \<open>
  C4 at its failing input. The branch for negative growth, documented as a penalty, starts
  from 20 while the branch for growth from 0 starts from 0: a growth of -1% scores 19, a
  growth of 0 scores 0 and a growth of +9% scores 18. Across 0 the scorer is therefore
  neither monotonic nor continuous: just below 0 it stays within 1 of 20.
\<close>

theorem growth_score_jump_at_zero:
  "(- 0.01::real) \<le> 0
   \<and> score_growth (- 0.01) = 19
   \<and> score_growth 0 = 0
   \<and> score_growth 0.09 = 18
   \<and> \<not> score_growth (- 0.01) \<le> score_growth 0
   \<and> \<not> continuous_on UNIV score_growth"
proof -
  have v: "score_growth (- 0.01) = 19 \<and> score_growth 0 = 0 \<and> score_growth 0.09 = 18"
    by (simp add: score_growth_def)
  have nc: "\<not> continuous_on UNIV score_growth"
  proof
    assume "continuous_on UNIV score_growth"
    then have "isCont score_growth 0"
      by (simp add: continuous_on_eq_continuous_at)
    then have "score_growth \<midarrow>0\<rightarrow> score_growth 0"
      by (simp add: isCont_def)
    then have "\<exists>d>0. \<forall>x. x \<noteq> 0 \<and> dist x 0 < d \<longrightarrow> dist (score_growth x) (score_growth 0) < 1"
      by (rule metric_LIM_D) simp
    then obtain d where d: "0 < d"
      and close: "\<forall>x. x \<noteq> 0 \<and> dist x 0 < d \<longrightarrow> dist (score_growth x) (score_growth 0) < 1"
      by blast
    define x where "x = - min (d / 2) (1 / 100)"
    have x: "x < 0" "dist x 0 < d" "- 1 / 100 \<le> x"
      using d by (auto simp: x_def min_def dist_real_def)
    from x(1) x(3) have "score_growth x \<ge> 19"
      by (simp add: score_growth_def)
    moreover from close x(1) x(2) have "\<bar>score_growth x - score_growth 0\<bar> < 1"
      by (simp add: dist_real_def)
    ultimately show False
      using v by simp
  qed
  from v nc show ?thesis by simp
qed

section \<open>The risk penalty\<close>

text \<open>
  C6. For all days inactive, growth rates and model counts the risk penalty lies in
  [0, 10] and is the clamped sum of 4.0 for more than 14 days inactive, of
  \<open>(days - 7) / 7 * 4.0\<close> for more than 7 and at most 14 days, of
  \<open>min(4.0, |growth| * 20)\<close> for a negative growth and of 2.0 for at most one model; at
  10000 days inactive, growth -5.0 and no model it is 10.
\<close>

theorem risk_penalty_bounded:
  "0 \<le> compute_risk_penalty d g n
   \<and> compute_risk_penalty d g n \<le> 10
   \<and> compute_risk_penalty d g n =
       max 0 (min 10 ((if d > 14 then 4 else 0)
                      + (if 7 < d \<and> d \<le> 14 then of_int (d - 7) / 7 * 4 else 0)
                      + (if g < 0 then min 4 (\<bar>g\<bar> * 20) else 0)
                      + (if n \<le> 1 then 2 else 0)))
   \<and> compute_risk_penalty 10000 (- 5) 0 = 10"
  by (auto simp: compute_risk_penalty_def penalty_inactive_def penalty_growth_def
      penalty_models_def Let_def)

section \<open>The recommended action\<close>

text \<open>
  C9. The recommended action is decided by the stage and then by the first condition of
  that stage that holds. Within Qualified: at most one model gives the multi-model guide
  whatever the production ratio; otherwise a production ratio under 0.6 gives the
  deployment support; otherwise the discovery call. Likewise Enterprise Ready has one
  action, High Velocity branches on the seats being 0, Nurture on a negative growth, and
  every other stage on more than 14 days inactive.
\<close>

theorem recommended_action_order:
  "(stage (scores r) = ''Qualified'' \<and> n_models r \<le> 1 \<longrightarrow>
      get_recommended_action r =
        ''Share multi-model use case guide; suggest Sonnet for cost optimization'')
   \<and> (stage (scores r) = ''Qualified'' \<and> \<not> n_models r \<le> 1 \<and> prod_ratio r < 0.6 \<longrightarrow>
      get_recommended_action r =
        ''Offer production deployment support; share best practices'')
   \<and> (stage (scores r) = ''Qualified'' \<and> \<not> n_models r \<le> 1 \<and> \<not> prod_ratio r < 0.6 \<longrightarrow>
      get_recommended_action r =
        ''Assign SDR for discovery call; share enterprise case studies'')
   \<and> (stage (scores r) = ''Enterprise Ready'' \<longrightarrow>
      get_recommended_action r = ''Route to AE for enterprise contract discussion'')
   \<and> (stage (scores r) = ''High Velocity'' \<longrightarrow>
      get_recommended_action r =
        (if enterprise_seats r = 0
         then ''Introduce Claude for Enterprise; schedule product demo''
         else ''Monitor for trigger event; prepare custom pricing proposal''))
   \<and> (stage (scores r) = ''Nurture'' \<longrightarrow>
      get_recommended_action r =
        (if get_growth r < 0
         then ''Trigger re-engagement campaign; offer office hours''
         else ''Add to nurture sequence; share relevant content''))
   \<and> (stage (scores r) \<notin> {''Enterprise Ready'', ''High Velocity'', ''Qualified'', ''Nurture''} \<longrightarrow>
      get_recommended_action r =
        (if days_inactive r > 14
         then ''CSM outreach: check-in call to understand blockers''
         else ''CSM intervention: identify churn risk factors''))"
  by (simp add: get_recommended_action_def)

theorem recommended_action_order_witness:
  "stage (scores qualified_row) = ''Qualified'' \<and> n_models qualified_row \<le> 1
   \<and> prod_ratio qualified_row < 0.6
   \<and> get_recommended_action qualified_row =
       ''Share multi-model use case guide; suggest Sonnet for cost optimization''
   \<and> get_recommended_action (qualified_row\<lparr>n_models := 2\<rparr>) =
       ''Offer production deployment support; share best practices''
   \<and> get_recommended_action (qualified_row\<lparr>n_models := 2, prod_ratio := 0.6\<rparr>) =
       ''Assign SDR for discovery call; share enterprise case studies''"
proof -
  have q: "stage (scores qualified_row) = ''Qualified'' \<and> n_models qualified_row \<le> 1
      \<and> prod_ratio qualified_row < 0.6"
    by (simp add: qualified_row_def)
  have q2: "stage (scores (qualified_row\<lparr>n_models := 2\<rparr>)) = ''Qualified''
      \<and> \<not> n_models (qualified_row\<lparr>n_models := 2\<rparr>) \<le> 1
      \<and> prod_ratio (qualified_row\<lparr>n_models := 2\<rparr>) < 0.6"
    by (simp add: qualified_row_def)
  have q3: "stage (scores (qualified_row\<lparr>n_models := 2, prod_ratio := 0.6\<rparr>)) = ''Qualified''
      \<and> \<not> n_models (qualified_row\<lparr>n_models := 2, prod_ratio := 0.6\<rparr>) \<le> 1
      \<and> \<not> prod_ratio (qualified_row\<lparr>n_models := 2, prod_ratio := 0.6\<rparr>) < 0.6"
    by (simp add: qualified_row_def)
  have a1: "get_recommended_action qualified_row =
       ''Share multi-model use case guide; suggest Sonnet for cost optimization''"
    using recommended_action_order[of qualified_row] q by blast
  have a2: "get_recommended_action (qualified_row\<lparr>n_models := 2\<rparr>) =
       ''Offer production deployment support; share best practices''"
    using recommended_action_order[of "qualified_row\<lparr>n_models := 2\<rparr>"] q2 by blast
  have a3: "get_recommended_action (qualified_row\<lparr>n_models := 2, prod_ratio := 0.6\<rparr>) =
       ''Assign SDR for discovery call; share enterprise case studies''"
    using recommended_action_order[of "qualified_row\<lparr>n_models := 2, prod_ratio := 0.6\<rparr>"] q3
    by blast
  from q a1 a2 a3 show ?thesis by blast
qed

section \<open>Reported score against reported stage\<close>

text \<open>
  C10. The stage is assigned from the unrounded composite and the score is returned
  rounded to one decimal. For the account whose composite is 77.96 the returned record has
  \<open>conversion_score\<close> 78.0 and stage High Velocity, while the thresholds applied to the
  returned score give Enterprise Ready.
\<close>

theorem rounded_score_stage_disagree:
  "total_score boundary_row = 77.96
   \<and> conversion_score (score_account boundary_row) = 78
   \<and> stage (score_account boundary_row) = ''High Velocity''
   \<and> assign_stage (conversion_score (score_account boundary_row)) = ''Enterprise Ready''"
proof -
  have c: "conversion_score (score_account boundary_row) = 78"
    using round_7796 by (simp add: score_account_def b_total)
  have s: "stage (score_account boundary_row) = ''High Velocity''"
    by (simp add: score_account_def b_total assign_stage_def STAGE_THRESHOLDS_def)
  have a: "assign_stage 78 = ''Enterprise Ready''"
    by (simp add: assign_stage_def STAGE_THRESHOLDS_def)
  from b_total c s a show ?thesis by simp
qed

section \<open>The marketplace-to-direct ratio\<close>

text \<open>
  C8. With a direct spend of 0 the marketplace-to-direct ratio is the sentinel 99.0 for
  every marketplace spend, a positive one included: no division takes place.
\<close>

theorem marketplace_ratio_sentinel:
  "marketplace_to_direct_of marketplace_spend 0 = 99
   \<and> marketplace_to_direct_of 250 0 = 99"
  by (simp add: marketplace_to_direct_of_def)

section \<open>The derived growth rate\<close>

lemma pct_pairs_defined:
  "\<forall>x \<in> set (butlast (p # xs)). x \<noteq> 0 \<Longrightarrow>
   pct_pairs p xs = map Fin (map (\<lambda>(prev, cur). (cur - prev) / prev) (zip (p # xs) xs))"
proof (induction xs arbitrary: p)
  case Nil
  then show ?case by simp
next
  case (Cons c rest)
  from Cons.prems have p0: "p \<noteq> 0" and rest: "\<forall>x \<in> set (butlast (c # rest)). x \<noteq> 0"
    by auto
  have "fadd (fdiv c p) (Fin (- 1)) = Fin ((c - p) / p)"
    using p0 by (simp add: fdiv_def field_simps)
  with Cons.IH[OF rest] show ?case by simp
qed

lemma dropna_Fin: "dropna (map Fin ys) = map Fin ys"
  by (induction ys) (simp_all add: dropna_def)

lemma foldl_fadd_Fin: "foldl fadd (Fin a) (map Fin ys) = Fin (a + sum_list ys)"
  by (induction ys arbitrary: a) (simp_all add: add.assoc)

lemma mean_Fin: "mean (map Fin ys) = Fin (sum_list ys / real (length ys))"
  by (simp add: mean_def foldl_fadd_Fin)

lemma length_tail_n: "length (tail_n n xs) = min n (length xs)"
  by (simp add: tail_n_def)

lemma growth_rates_defined:
  assumes len: "2 \<le> length xs" and nz: "\<forall>x \<in> set (butlast xs). x \<noteq> 0"
  shows "dropna (pct_change xs) = map Fin (spec_pct_changes xs) \<and> spec_pct_changes xs \<noteq> []"
proof -
  from len obtain x y rest where xs: "xs = x # y # rest"
    by (cases xs; cases "tl xs") auto
  have "pct_pairs x (y # rest) = map Fin (spec_pct_changes xs)"
    using pct_pairs_defined[of x "y # rest"] nz unfolding xs spec_pct_changes_def by simp
  then have "dropna (pct_change xs) = map Fin (spec_pct_changes xs)"
    unfolding xs pct_change_def using dropna_Fin[of "spec_pct_changes (x # y # rest)"]
    by (simp add: dropna_def)
  moreover have "spec_pct_changes xs \<noteq> []"
    unfolding xs spec_pct_changes_def by simp
  ultimately show ?thesis by simp
qed

lemma tail_n_spec_last: "tail_n n xs = spec_last n xs"
  by (simp add: tail_n_def spec_last_def rev_take)

lemma groupby_sum_spec: "groupby_sum history = spec_bucket_totals history"
proof -
  have "sort (remdups (map month_idx history)) = sorted_list_of_set (month_idx ` set history)"
    by (simp add: sorted_list_of_set_sort_remdups[symmetric])
  moreover have "\<And>m. sum_list (map spend (filter (\<lambda>u. month_idx u = m) history))
      = (\<Sum>u\<leftarrow>history. if month_idx u = m then spend u else 0)"
    by (simp add: sum_list_map_filter')
  ultimately show ?thesis
    by (simp add: groupby_sum_def spec_bucket_totals_def)
qed

lemma length_groupby_sum: "length (groupby_sum history) = card (month_idx ` set history)"
  by (simp add: groupby_sum_def length_remdups_card_conv)

lemma compute_growth_rate_short:
  "card (month_idx ` set [u \<leftarrow> monthly. usage_account_id u = aid]) < 2 \<Longrightarrow>
   compute_growth_rate monthly aid = Fin 0"
  by (simp add: compute_growth_rate_def Let_def length_groupby_sum)

lemma compute_growth_rate_defined:
  assumes nz: "\<forall>x \<in> set (butlast (spec_last 4
                 (spec_bucket_totals [u \<leftarrow> monthly. usage_account_id u = aid]))). x \<noteq> 0"
  shows "compute_growth_rate monthly aid = Fin (spec_derive_growth_rate monthly aid)"
proof -
  define totals where "totals = groupby_sum [u \<leftarrow> monthly. usage_account_id u = aid]"
  have nz': "\<forall>x \<in> set (butlast (tail_n 4 totals)). x \<noteq> 0"
    using nz by (simp add: totals_def tail_n_spec_last groupby_sum_spec)
  have spec: "spec_derive_growth_rate monthly aid = spec_derived_growth totals"
    by (simp add: spec_derive_growth_rate_def totals_def groupby_sum_spec)
  show ?thesis
  proof (cases "length totals < 2")
    case True
    then have "compute_growth_rate monthly aid = Fin 0"
      by (simp add: compute_growth_rate_def Let_def totals_def)
    with True show ?thesis
      by (simp add: spec spec_derived_growth_def)
  next
    case False
    then have len: "2 \<le> length (tail_n 4 totals)"
      by (simp add: length_tail_n)
    from False have ne: "[u \<leftarrow> monthly. usage_account_id u = aid] \<noteq> []"
      by (auto simp: totals_def groupby_sum_def)
    note g = growth_rates_defined[OF len nz']
    have "compute_growth_rate monthly aid =
          fadd (fpow12 (fadd (Fin 1) (mean (map Fin (spec_pct_changes (tail_n 4 totals))))))
            (Fin (- 1))"
      using False ne g by (simp add: compute_growth_rate_def Let_def totals_def)
    also have "\<dots> = Fin (spec_derived_growth totals)"
      using False by (simp add: mean_Fin spec_derived_growth_def Let_def tail_n_spec_last)
    finally show ?thesis by (simp add: spec)
  qed
qed

lemma blend_finite:
  "growth_rate r = Some s \<Longrightarrow> compute_growth_rate monthly (account_id r) = Fin d \<Longrightarrow>
   \<exists>sg. signals_for accts monthly r = Inr sg \<and> sig_account_id sg = account_id r \<and>
        sig_computed_growth_rate sg = Fin (py_round (0.7 * s + 0.3 * d) 4)"
  by (simp add: signals_for_def Let_def mult.commute)

subsection \<open>The enriched frame\<close>

lemma signals_for_Inr:
  "growth_rate r \<noteq> None \<Longrightarrow>
   signals_for accts monthly r = Inr (projr (signals_for accts monthly r))
   \<and> sig_account_id (projr (signals_for accts monthly r)) = account_id r"
  by (auto simp: signals_for_def Let_def)

lemma signals_loop_Inr:
  "\<forall>r \<in> set rs. growth_rate r \<noteq> None \<Longrightarrow>
   signals_loop accts monthly rs = Inr (map (\<lambda>r. projr (signals_for accts monthly r)) rs)"
proof (induction rs)
  case Nil
  then show ?case by simp
next
  case (Cons r rs)
  then have "signals_for accts monthly r = Inr (projr (signals_for accts monthly r))"
    using signals_for_Inr[of r accts monthly] by simp
  then obtain sg where sg: "signals_for accts monthly r = Inr sg"
    by blast
  from Cons have
    "signals_loop accts monthly rs = Inr (map (\<lambda>r. projr (signals_for accts monthly r)) rs)"
    by simp
  with sg show ?case
    by simp
qed

lemma filter_distinct_key:
  "distinct (map g xs) \<Longrightarrow> x \<in> set xs \<Longrightarrow> filter (\<lambda>y. g y = g x) xs = [x]"
proof (induction xs)
  case Nil
  then show ?case by simp
next
  case (Cons a xs)
  show ?case
  proof (cases "a = x")
    case True
    have "\<forall>y \<in> set xs. g y \<noteq> g x"
    proof
      fix y
      assume "y \<in> set xs"
      then have "g y \<in> g ` set xs"
        by simp
      moreover from Cons.prems True have "g x \<notin> g ` set xs"
        by simp
      ultimately show "g y \<noteq> g x"
        by metis
    qed
    then have "filter (\<lambda>y. g y = g x) xs = []"
      by (simp add: filter_empty_conv)
    with True show ?thesis by simp
  next
    case False
    with Cons.prems have "x \<in> set xs" and "g a \<noteq> g x" and "distinct (map g xs)"
      by auto
    with Cons.IH show ?thesis by simp
  qed
qed

lemma merge_left_distinct:
  assumes d: "distinct (map account_id accts)"
    and k: "\<forall>r \<in> set accts. sig_account_id (f r) = account_id r"
  shows "merge_left accts (map f accts) = map (\<lambda>r. (r, Some (f r))) accts"
proof -
  have one: "filter (\<lambda>s. sig_account_id s = account_id r) (map f accts) = [f r]"
    if r: "r \<in> set accts" for r
  proof -
    have "filter (\<lambda>s. sig_account_id s = account_id r) (map f accts)
        = map f (filter (\<lambda>r'. sig_account_id (f r') = account_id r) accts)"
      by (simp add: filter_map comp_def)
    also have "filter (\<lambda>r'. sig_account_id (f r') = account_id r) accts
        = filter (\<lambda>r'. account_id r' = account_id r) accts"
      using k by (intro filter_cong) auto
    also have "\<dots> = [r]"
      using filter_distinct_key[OF d r] .
    finally show ?thesis by simp
  qed
  have "map (\<lambda>r. case filter (\<lambda>s. sig_account_id s = account_id r) (map f accts) of
                    [] \<Rightarrow> [(r, None)]
                  | ms \<Rightarrow> map (\<lambda>s. (r, Some s)) ms) accts
        = map (\<lambda>r. [(r, Some (f r))]) accts"
    by (rule map_cong) (simp_all add: one)
  then show ?thesis
    unfolding merge_left_def by (simp only: concat_map_singleton)
qed

lemma compute_all_signals_distinct:
  assumes d: "distinct (map account_id accts)"
    and g: "\<forall>r \<in> set accts. growth_rate r \<noteq> None"
  shows "compute_all_signals accts monthly
         = Inr (map (\<lambda>r. (r, Some (projr (signals_for accts monthly r)))) accts)"
proof -
  have k: "\<forall>r \<in> set accts.
      sig_account_id (projr (signals_for accts monthly r)) = account_id r"
    using g signals_for_Inr by blast
  show ?thesis
    unfolding compute_all_signals_def
    by (simp add: signals_loop_Inr[OF g] merge_left_distinct[OF d k])
qed

lemma enriched_growth:
  assumes d: "distinct (map account_id accts)"
    and g: "\<forall>r \<in> set accts. growth_rate r \<noteq> None"
  shows "\<exists>enriched. compute_all_signals accts monthly = Inr enriched
           \<and> map fst enriched = accts
           \<and> (\<forall>(r, so) \<in> set enriched. \<forall>s d.
                 growth_rate r = Some s \<and> compute_growth_rate monthly (account_id r) = Fin d
                 \<longrightarrow> (\<exists>sg. so = Some sg \<and> sig_account_id sg = account_id r
                        \<and> sig_computed_growth_rate sg = Fin (py_round (0.7 * s + 0.3 * d) 4)))"
proof -
  define enriched where
    "enriched = map (\<lambda>r. (r, Some (projr (signals_for accts monthly r)))) accts"
  have c: "compute_all_signals accts monthly = Inr enriched"
    unfolding enriched_def by (rule compute_all_signals_distinct[OF d g])
  have f: "map fst enriched = accts"
    by (simp add: enriched_def comp_def)
  have p: "\<exists>sg. so = Some sg \<and> sig_account_id sg = account_id r
                \<and> sig_computed_growth_rate sg = Fin (py_round (0.7 * s + 0.3 * d) 4)"
    if m: "(r, so) \<in> set enriched" and s: "growth_rate r = Some s"
      and dd: "compute_growth_rate monthly (account_id r) = Fin d" for r so s d
  proof -
    from m have so: "so = Some (projr (signals_for accts monthly r))"
      by (auto simp: enriched_def)
    from blend_finite[OF s dd, of accts] obtain sg where
      "signals_for accts monthly r = Inr sg" "sig_account_id sg = account_id r"
      "sig_computed_growth_rate sg = Fin (py_round (0.7 * s + 0.3 * d) 4)"
      by blast
    with so show ?thesis by simp
  qed
  from c f p show ?thesis by blast
qed

lemma steady_totals:
  "spec_bucket_totals [u \<leftarrow> steady_usage. usage_account_id u = ''ACC-1005'']
   = [50, 400, 100, 110, 121, 121]"
  by (simp add: groupby_sum_spec[symmetric] groupby_sum_def steady_usage_def)

lemma steady_spec: "spec_derived_growth [50, 400, 100, 110, 121, 121] = (16 / 15) ^ 12 - 1"
  by (simp add: spec_derived_growth_def spec_pct_changes_def spec_last_def Let_def)

lemma steady_round: "py_round (0.7 * 0.1 + 0.3 * ((16 / 15) ^ 12 - 1)) 4 = 0.4208"
  by (simp add: py_round_def round_half_even_def Let_def power_divide)

text \<open>
  C5 at its failing input. The history has a first bucket of zero spend and a second of
  100. The change over the zero bucket is \<open>100 / 0 - 1\<close>, an infinity, which
  \<open>dropna\<close> keeps: it is averaged, annualised and returned, and the blended growth rate of
  the account is infinite.
\<close>

theorem growth_rate_zero_bucket:
  "groupby_sum (filter (\<lambda>u. usage_account_id u = ''ACC-1007'') zero_start_usage) = [0, 100]
   \<and> dropna (pct_change [0, 100]) = [PInf]
   \<and> compute_growth_rate zero_start_usage ''ACC-1007'' = PInf
   \<and> map_sum id sig_computed_growth_rate
         (signals_for [restart_account] zero_start_usage restart_account) = Inr PInf"
proof -
  have t: "groupby_sum (filter (\<lambda>u. usage_account_id u = ''ACC-1007'') zero_start_usage)
      = [0, 100]"
    by (simp add: groupby_sum_def zero_start_usage_def)
  have p: "dropna (pct_change [0, 100]) = [PInf]"
    by (simp add: pct_change_def dropna_def fdiv_def)
  have ne: "filter (\<lambda>u. usage_account_id u = ''ACC-1007'') zero_start_usage \<noteq> []"
    by (simp add: zero_start_usage_def)
  have g: "compute_growth_rate zero_start_usage ''ACC-1007'' = PInf"
    unfolding compute_growth_rate_def Let_def using ne
    by (simp add: t tail_n_def p mean_def)
  have s: "map_sum id sig_computed_growth_rate
         (signals_for [restart_account] zero_start_usage restart_account) = Inr PInf"
    using g by (simp add: signals_for_def restart_account_def Let_def)
  from t p g s show ?thesis by simp
qed

text \<open>
  C7. When the accounts have distinct ids and a stored growth rate each,
  \<open>compute_all_signals\<close> returns one enriched record per account, in order, and the
  \<open>computed_growth_rate\<close> joined to each account is 0.7 times its stored rate plus 0.3
  times the rate derived from its history, rounded to 4 decimals (stored 0.10 and derived
  0.20 give 0.13). The derived rate is 0 for an account with fewer than 2 time buckets;
  and where the percentage changes of the last 4 buckets are defined, that is where none
  of them but the newest is zero, it is the rate of the specification: their average,
  annualised by \<open>(1 + avg) ^ 12 - 1\<close>.
\<close>

theorem blended_growth_rate:
  "(distinct (map account_id accts) \<and> (\<forall>r \<in> set accts. growth_rate r \<noteq> None) \<longrightarrow>
      (\<exists>enriched. compute_all_signals accts monthly = Inr enriched
         \<and> map fst enriched = accts
         \<and> (\<forall>(r, so) \<in> set enriched. \<forall>s d.
               growth_rate r = Some s \<and> compute_growth_rate monthly (account_id r) = Fin d
               \<longrightarrow> (\<exists>sg. so = Some sg \<and> sig_account_id sg = account_id r
                      \<and> sig_computed_growth_rate sg = Fin (py_round (0.7 * s + 0.3 * d) 4)))))
   \<and> fround (fadd (fscale (Fin 0.10) 0.7) (fscale (Fin 0.20) 0.3)) 4 = Fin 0.13
   \<and> (card (month_idx ` set [u \<leftarrow> monthly. usage_account_id u = aid]) < 2 \<longrightarrow>
      compute_growth_rate monthly aid = Fin 0)
   \<and> ((\<forall>x \<in> set (butlast (spec_last 4
              (spec_bucket_totals [u \<leftarrow> monthly. usage_account_id u = aid]))). x \<noteq> 0) \<longrightarrow>
      compute_growth_rate monthly aid = Fin (spec_derive_growth_rate monthly aid))"
proof -
  have e: "fround (fadd (fscale (Fin 0.10) 0.7) (fscale (Fin 0.20) 0.3)) 4 = Fin 0.13"
    by (simp add: py_round_def round_half_even_def Let_def)
  have en: "distinct (map account_id accts) \<and> (\<forall>r \<in> set accts. growth_rate r \<noteq> None) \<longrightarrow>
      (\<exists>enriched. compute_all_signals accts monthly = Inr enriched
         \<and> map fst enriched = accts
         \<and> (\<forall>(r, so) \<in> set enriched. \<forall>s d.
               growth_rate r = Some s \<and> compute_growth_rate monthly (account_id r) = Fin d
               \<longrightarrow> (\<exists>sg. so = Some sg \<and> sig_account_id sg = account_id r
                      \<and> sig_computed_growth_rate sg = Fin (py_round (0.7 * s + 0.3 * d) 4))))"
    using enriched_growth[where accts = accts and monthly = monthly] by blast
  have sh: "card (month_idx ` set [u \<leftarrow> monthly. usage_account_id u = aid]) < 2 \<longrightarrow>
      compute_growth_rate monthly aid = Fin 0"
    using compute_growth_rate_short[where monthly = monthly and aid = aid] by blast
  have df: "(\<forall>x \<in> set (butlast (spec_last 4
              (spec_bucket_totals [u \<leftarrow> monthly. usage_account_id u = aid]))). x \<noteq> 0) \<longrightarrow>
      compute_growth_rate monthly aid = Fin (spec_derive_growth_rate monthly aid)"
    using compute_growth_rate_defined[where monthly = monthly and aid = aid] by blast
  from en e sh df show ?thesis by (intro conjI)
qed

theorem blended_growth_rate_witness:
  "distinct (map account_id [steady_account, idle_account])
   \<and> growth_rate steady_account = Some 0.1 \<and> growth_rate idle_account = Some 0
   \<and> spec_bucket_totals [u \<leftarrow> steady_usage. usage_account_id u = ''ACC-1005'']
       = [50, 400, 100, 110, 121, 121]
   \<and> compute_growth_rate steady_usage ''ACC-1005'' = Fin ((16 / 15) ^ 12 - 1)
   \<and> card (month_idx ` set [u \<leftarrow> steady_usage. usage_account_id u = ''ACC-1004'']) < 2
   \<and> compute_growth_rate steady_usage ''ACC-1004'' = Fin 0
   \<and> (\<exists>sg sg'. compute_all_signals [steady_account, idle_account] steady_usage
                 = Inr [(steady_account, Some sg), (idle_account, Some sg')]
          \<and> sig_computed_growth_rate sg = Fin 0.4208
          \<and> sig_computed_growth_rate sg' = Fin 0)"
proof -
  let ?accts = "[steady_account, idle_account]"
  have ids: "account_id steady_account = ''ACC-1005''" "account_id idle_account = ''ACC-1004''"
    by (simp_all add: steady_account_def idle_account_def)
  have st: "growth_rate steady_account = Some 0.1" "growth_rate idle_account = Some 0"
    by (simp_all add: steady_account_def idle_account_def)
  have di: "distinct (map account_id ?accts)"
    by (simp add: ids)
  have nz: "\<forall>x \<in> set (butlast (spec_last 4
        (spec_bucket_totals [u \<leftarrow> steady_usage. usage_account_id u = ''ACC-1005'']))). x \<noteq> 0"
    by (simp add: steady_totals spec_last_def)
  have g: "compute_growth_rate steady_usage ''ACC-1005'' = Fin ((16 / 15) ^ 12 - 1)"
    using blended_growth_rate[where accts = ?accts and monthly = steady_usage and aid = "''ACC-1005''"] nz
    by (simp only: spec_derive_growth_rate_def steady_totals steady_spec)
  have sh: "card (month_idx ` set [u \<leftarrow> steady_usage. usage_account_id u = ''ACC-1004'']) < 2"
    by (simp add: steady_usage_def)
  have z: "compute_growth_rate steady_usage ''ACC-1004'' = Fin 0"
    using blended_growth_rate[where accts = ?accts and monthly = steady_usage and aid = "''ACC-1004''"] sh by blast
  have h: "distinct (map account_id ?accts) \<and> (\<forall>r \<in> set ?accts. growth_rate r \<noteq> None)"
    using di st by (simp del: not_None_eq)
  note joined = mp[OF conjunct1[OF blended_growth_rate[where accts = ?accts
          and monthly = steady_usage and aid = "''ACC-1005''"]] h]
  then obtain enriched where all:
    "compute_all_signals ?accts steady_usage = Inr enriched
     \<and> map fst enriched = ?accts
     \<and> (\<forall>(r, so) \<in> set enriched. \<forall>s d.
               growth_rate r = Some s \<and> compute_growth_rate steady_usage (account_id r) = Fin d
               \<longrightarrow> (\<exists>sg. so = Some sg \<and> sig_account_id sg = account_id r
                      \<and> sig_computed_growth_rate sg = Fin (py_round (0.7 * s + 0.3 * d) 4)))"
    ..
  note c = conjunct1[OF all]
  note f = conjunct1[OF conjunct2[OF all]]
  note p = conjunct2[OF conjunct2[OF all]]
  from f obtain so so' where en: "enriched = [(steady_account, so), (idle_account, so')]"
    by (auto simp: map_eq_Cons_conv)
  have g1: "growth_rate steady_account = Some 0.1
      \<and> compute_growth_rate steady_usage (account_id steady_account) = Fin ((16 / 15) ^ 12 - 1)"
    using st(1) g by (simp only: ids)
  have g2: "growth_rate idle_account = Some 0
      \<and> compute_growth_rate steady_usage (account_id idle_account) = Fin 0"
    using st(2) z by (simp only: ids)
  have m1: "(steady_account, so) \<in> set enriched" and m2: "(idle_account, so') \<in> set enriched"
    by (simp_all add: en)
  from p m1 have "\<forall>s d.
      growth_rate steady_account = Some s
      \<and> compute_growth_rate steady_usage (account_id steady_account) = Fin d
      \<longrightarrow> (\<exists>sg. so = Some sg \<and> sig_account_id sg = account_id steady_account
             \<and> sig_computed_growth_rate sg = Fin (py_round (0.7 * s + 0.3 * d) 4))"
    by blast
  with g1 obtain sg where sg: "so = Some sg"
    "sig_computed_growth_rate sg = Fin (py_round (0.7 * 0.1 + 0.3 * ((16 / 15) ^ 12 - 1)) 4)"
    by blast
  from p m2 have "\<forall>s d.
      growth_rate idle_account = Some s
      \<and> compute_growth_rate steady_usage (account_id idle_account) = Fin d
      \<longrightarrow> (\<exists>sg. so' = Some sg \<and> sig_account_id sg = account_id idle_account
             \<and> sig_computed_growth_rate sg = Fin (py_round (0.7 * s + 0.3 * d) 4))"
    by blast
  with g2 obtain sg' where sg': "so' = Some sg'"
    "sig_computed_growth_rate sg' = Fin (py_round (0.7 * 0 + 0.3 * 0) 4)"
    by blast
  have r0: "py_round (0.7 * 0 + 0.3 * 0) 4 = 0"
    by (simp add: py_round_def round_half_even_def Let_def)
  have "\<exists>sg sg'. compute_all_signals ?accts steady_usage
                 = Inr [(steady_account, Some sg), (idle_account, Some sg')]
          \<and> sig_computed_growth_rate sg = Fin 0.4208
          \<and> sig_computed_growth_rate sg' = Fin 0"
    using c en sg sg' by (simp only: steady_round r0) blast
  with di st steady_totals g sh z show ?thesis by (intro conjI)
qed

end
